theory Spec2Isabelle
  imports Main
begin

section \<open>Exceptions\<close>

text \<open>
  Python exceptions as values. \<open>Exception msg\<close> stands for an instance of any subclass
  of \<^verbatim>\<open>Exception\<close> (ValueError, AttributeError, TimeoutException, WebDriverException,
  OSError, ...), the string naming it. \<open>KeyboardInterrupt\<close> and \<open>SystemExit\<close> derive from
  \<^verbatim>\<open>BaseException\<close> only, so an \<^verbatim>\<open>except Exception\<close> clause does not catch them.
\<close>

datatype exn = Exception string | KeyboardInterrupt | SystemExit int

fun is_Exception :: "exn \<Rightarrow> bool" where
  "is_Exception (Exception _) = True"
| "is_Exception KeyboardInterrupt = False"
| "is_Exception (SystemExit _) = False"

section \<open>Browser options: \<^verbatim>\<open>configure_chrome_options\<close>\<close>

text \<open>
  Selenium's \<^verbatim>\<open>Options\<close> object holds a list of command-line arguments and a dictionary
  of experimental options. \<^verbatim>\<open>add_argument\<close> appends (and raises ValueError on an empty
  argument); \<^verbatim>\<open>add_experimental_option(name, value)\<close> is the dictionary assignment
  \<^verbatim>\<open>self._experimental_options[name] = value\<close>.
\<close>

datatype option_value = Switches "string list" | Flag bool

record Options =
  arguments :: "string list"
  experimental_options :: "string \<rightharpoonup> option_value"

definition new_Options :: Options where
  "new_Options = \<lparr>arguments = [], experimental_options = Map.empty\<rparr>"

definition add_argument :: "string \<Rightarrow> Options \<Rightarrow> exn + Options" where
  "add_argument argument opts =
     (if argument \<noteq> [] then Inr (opts\<lparr>arguments := arguments opts @ [argument]\<rparr>)
      else Inl (Exception ''ValueError''))"

definition add_experimental_option :: "string \<Rightarrow> option_value \<Rightarrow> Options \<Rightarrow> exn + Options" where
  "add_experimental_option name v opts =
     Inr (opts\<lparr>experimental_options := (experimental_options opts)(name \<mapsto> v)\<rparr>)"

text \<open>Sequencing of calls that may raise: the first exception ends the sequence.\<close>

fun and_then :: "exn + 'a \<Rightarrow> ('a \<Rightarrow> exn + 'b) \<Rightarrow> exn + 'b" where
  "and_then (Inl e) f = Inl e"
| "and_then (Inr x) f = f x"

text \<open>
  \<^verbatim>\<open>SESSION_DIR\<close> is \<^verbatim>\<open>os.path.join(os.getcwd(), "whatsapp_session")\<close>, fixed when the
  module is loaded; it is a parameter here. The calls are in the order of the source.
\<close>

definition configure_chrome_options :: "string \<Rightarrow> exn + Options" where
  "configure_chrome_options SESSION_DIR =
     and_then (add_argument (''--user-data-dir='' @ SESSION_DIR) new_Options) (\<lambda>o1.
     and_then (add_argument ''--profile-directory=Default'' o1) (\<lambda>o2.
     and_then (add_argument ''--disable-blink-features=AutomationControlled'' o2) (\<lambda>o3.
     and_then (add_experimental_option ''excludeSwitches'' (Switches [''enable-automation'']) o3) (\<lambda>o4.
     and_then (add_experimental_option ''useAutomationExtension'' (Flag False) o4) (\<lambda>o5.
     and_then (add_argument ''--disable-gpu'' o5) (\<lambda>o6.
     and_then (add_argument ''--no-sandbox'' o6) (\<lambda>o7.
     and_then (add_argument ''--disable-dev-shm-usage'' o7) (\<lambda>o8.
     and_then (add_argument ''--log-level=3'' o8) (\<lambda>o9.
     and_then (add_argument ''--disable-logging'' o9) (\<lambda>o10.
     and_then (add_argument ''--disable-crash-reporter'' o10) (\<lambda>o11.
     and_then (add_argument ''--disable-breakpad'' o11) (\<lambda>o12.
     and_then (add_argument ''--disable-component-update'' o12) (\<lambda>o13.
     and_then (add_argument ''--disable-background-networking'' o13) (\<lambda>o14.
     and_then (add_argument ''--disable-default-apps'' o14) (\<lambda>o15.
     and_then (add_argument ''--disable-features=TranslateUI'' o15) (\<lambda>o16.
     and_then (add_argument ''--no-first-run'' o16) (\<lambda>o17.
     and_then (add_argument ''--no-service-autorun'' o17) (\<lambda>o18.
     and_then (add_argument ''--metrics-recording-only'' o18) (\<lambda>o19.
     add_experimental_option ''excludeSwitches'' (Switches [''enable-logging'']) o19)))))))))))))))))))"

section \<open>Message templates: \<^verbatim>\<open>render_message_template\<close>\<close>

text \<open>
  Strings are lists of \<open>char\<close>; a \<open>char\<close> stands for a code point below 256 (Python
  strings over Latin-1), so \<open>length\<close> is Python's \<^verbatim>\<open>len\<close>.

  \<^verbatim>\<open>string.Template\<close> scans the template with the regular expression
  \<^verbatim>\<open>\$(?:(?P<escaped>\$)|(?P<named>ID)|{(?P<braced>ID)}|(?P<invalid>))\<close>
  where ID is \<^verbatim>\<open>(?a:[_a-z][_a-z0-9]*)\<close> under \<^verbatim>\<open>re.IGNORECASE\<close>: an ASCII letter
  of either case or an underscore, then ASCII letters, digits and underscores.
\<close>

definition is_id_start :: "char \<Rightarrow> bool" where
  "is_id_start c \<longleftrightarrow> c \<in> set ''_abcdefghijklmnopqrstuvwxyzABCDEFGHIJKLMNOPQRSTUVWXYZ''"

definition is_id_char :: "char \<Rightarrow> bool" where
  "is_id_char c \<longleftrightarrow> is_id_start c \<or> c \<in> set ''0123456789''"

text \<open>
  A match object: the whole matched text (\<^verbatim>\<open>mo.group()\<close>) and the four named groups,
  \<open>None\<close> for a group that did not take part in the match.
\<close>

record match_obj =
  group0 :: string
  escaped :: "string option"
  named :: "string option"
  braced :: "string option"
  invalid :: "string option"

definition escaped_match :: match_obj where
  "escaped_match = \<lparr>group0 = ''$$'', escaped = Some ''$'', named = None, braced = None, invalid = None\<rparr>"

definition named_match :: "string \<Rightarrow> match_obj" where
  "named_match ident =
     \<lparr>group0 = CHR ''$'' # ident, escaped = None, named = Some ident, braced = None, invalid = None\<rparr>"

definition braced_match :: "string \<Rightarrow> match_obj" where
  "braced_match ident =
     \<lparr>group0 = ''${'' @ ident @ ''}'', escaped = None, named = None, braced = Some ident,
      invalid = None\<rparr>"

definition invalid_match :: match_obj where
  "invalid_match = \<lparr>group0 = ''$'', escaped = None, named = None, braced = None, invalid = Some []\<rparr>"

text \<open>
  The text after \<^verbatim>\<open>${\<close>: an identifier closed at once by \<^verbatim>\<open>}\<close>, with what follows
  the brace.
\<close>

definition braced_ident :: "string \<Rightarrow> (string \<times> string) option" where
  "braced_ident ds =
     (case dropWhile is_id_char ds of
        [] \<Rightarrow> None
      | e # es \<Rightarrow>
          if ds \<noteq> [] \<and> is_id_start (hd ds) \<and> e = CHR ''}''
          then Some (takeWhile is_id_char ds, es) else None)"

text \<open>
  The pattern tried at the head of a text: \<open>None\<close> unless the text starts with the
  delimiter; otherwise the match object and the text after the match. The alternatives
  are tried in the order of the pattern; the last one matches the empty string, so a
  delimiter always matches.
\<close>

fun pattern_match :: "string \<Rightarrow> (match_obj \<times> string) option" where
  "pattern_match [] = None"
| "pattern_match (c # cs) =
     (if c \<noteq> CHR ''$'' then None
      else case cs of
        [] \<Rightarrow> Some (invalid_match, [])
      | d # ds \<Rightarrow>
          if d = CHR ''$'' then Some (escaped_match, ds)
          else if is_id_start d
            then Some (named_match (takeWhile is_id_char cs), dropWhile is_id_char cs)
          else if d = CHR ''{''
            then (case braced_ident ds of
                    Some (ident, rest) \<Rightarrow> Some (braced_match ident, rest)
                  | None \<Rightarrow> Some (invalid_match, cs))
          else Some (invalid_match, cs))"

lemma braced_ident_shorter: "braced_ident ds = Some (ident, rest) \<Longrightarrow> length rest < length ds"
proof -
  assume a: "braced_ident ds = Some (ident, rest)"
  then obtain e where "dropWhile is_id_char ds = e # rest"
    by (auto simp: braced_ident_def split: list.splits if_splits)
  then have "Suc (length rest) = length (dropWhile is_id_char ds)" by simp
  also have "\<dots> \<le> length ds" by (rule length_dropWhile_le)
  finally show ?thesis by simp
qed

lemma pattern_match_shorter:
  "pattern_match s = Some (mo, rest) \<Longrightarrow> length rest < length s"
proof (cases s)
  case Nil
  assume "pattern_match s = Some (mo, rest)"
  with Nil show ?thesis by simp
next
  case (Cons c cs)
  assume a: "pattern_match s = Some (mo, rest)"
  have dw: "length (dropWhile is_id_char cs) \<le> length cs" by (rule length_dropWhile_le)
  from a Cons dw show ?thesis
    by (auto split: if_splits list.splits option.splits dest: braced_ident_shorter)
qed

text \<open>
  \<^verbatim>\<open>pattern.sub(convert, template)\<close>: the text outside the matches is copied, each match
  is replaced by what \<open>conv\<close> returns for it, and an exception of \<open>conv\<close> ends the scan.
\<close>

function re_sub :: "(match_obj \<Rightarrow> exn + string) \<Rightarrow> string \<Rightarrow> exn + string" where
  "re_sub conv [] = Inr []"
| "re_sub conv (c # cs) =
     (case pattern_match (c # cs) of
        None \<Rightarrow> (case re_sub conv cs of Inl e \<Rightarrow> Inl e | Inr out \<Rightarrow> Inr (c # out))
      | Some (mo, rest) \<Rightarrow>
          (case conv mo of
             Inl e \<Rightarrow> Inl e
           | Inr r \<Rightarrow> (case re_sub conv rest of Inl e \<Rightarrow> Inl e | Inr out \<Rightarrow> Inr (r @ out))))"
  by pat_completeness auto
termination
proof (relation "measure (\<lambda>(conv, s). length s)")
  show "wf (measure (\<lambda>(conv, s). length s))" by simp
next
  fix conv :: "match_obj \<Rightarrow> exn + string" and c :: char and cs :: string
  show "((conv, cs), (conv, c # cs)) \<in> measure (\<lambda>(conv, s). length s)" by simp
next
  fix conv :: "match_obj \<Rightarrow> exn + string" and c :: char and cs :: string
    and x2 :: "match_obj \<times> string" and mo rest r
  assume "pattern_match (c # cs) = Some x2" and "(mo, rest) = x2"
  then have "pattern_match (c # cs) = Some (mo, rest)" by simp
  then have "length rest < length (c # cs)" by (rule pattern_match_shorter)
  then show "((conv, rest), (conv, c # cs)) \<in> measure (\<lambda>(conv, s). length s)" by simp
qed

text \<open>
  \<^verbatim>\<open>a or b\<close> on values that are a string or None, and the function \<^verbatim>\<open>convert\<close> of
  \<^verbatim>\<open>safe_substitute\<close>: a placeholder whose name is a key is replaced by the value, one
  whose name is not a key (KeyError) by the matched text itself.
\<close>

definition py_or :: "string option \<Rightarrow> string option \<Rightarrow> string option" where
  "py_or a b = (case a of None \<Rightarrow> b | Some s \<Rightarrow> if s = [] then b else a)"

definition convert :: "(string \<rightharpoonup> string) \<Rightarrow> match_obj \<Rightarrow> exn + string" where
  "convert mapping mo =
     (case py_or (named mo) (braced mo) of
        Some nm \<Rightarrow> (case mapping nm of Some v \<Rightarrow> Inr v | None \<Rightarrow> Inr (group0 mo))
      | None \<Rightarrow>
          if escaped mo \<noteq> None then Inr ''$''
          else if invalid mo \<noteq> None then Inr (group0 mo)
          else Inl (Exception ''ValueError''))"

definition safe_substitute :: "(string \<rightharpoonup> string) \<Rightarrow> string \<Rightarrow> exn + string" where
  "safe_substitute mapping template = re_sub (convert mapping) template"

text \<open>
  The two \<^verbatim>\<open>time.strftime\<close> results (\<open>today\<close> for \<^verbatim>\<open>%Y-%m-%d\<close>, \<open>now\<close> for
  \<^verbatim>\<open>%H:%M\<close>) come from the clock and are parameters.
\<close>

definition substitutions :: "string \<Rightarrow> string \<Rightarrow> string \<Rightarrow> string \<Rightarrow> (string \<rightharpoonup> string)" where
  "substitutions today now name phone =
     [''name'' \<mapsto> name, ''phone'' \<mapsto> phone, ''date'' \<mapsto> today, ''time'' \<mapsto> now]"

definition render_message_template ::
    "string \<Rightarrow> string \<Rightarrow> string \<Rightarrow> string \<Rightarrow> string \<Rightarrow> exn + string" where
  "render_message_template today now template_str name phone =
     safe_substitute (substitutions today now name phone) template_str"

section \<open>The world: browser, console, sound and clock\<close>

text \<open>
  What the program does to the outside is kept in a trace of effects, in the order of the
  calls: console lines (\<^verbatim>\<open>log\<close>, with the Rich style), beeps
  (\<^verbatim>\<open>winsound.Beep(frequency, duration)\<close>), pauses (\<^verbatim>\<open>time.sleep\<close> of a fixed number
  of seconds, or of \<^verbatim>\<open>random.uniform(lo, hi)\<close> seconds) and the scripts handed to
  \<^verbatim>\<open>driver.execute_script\<close>. A console line is kept by what it reports, without its
  time stamp. Console lines, beeps and pauses always go through; the calls that can
  raise are those on the driver, the network request, \<^verbatim>\<open>input()\<close> and the reading of
  the contacts file, and each of them takes its outcome from the outside.
\<close>

datatype log_message =
    NetworkError exn
  | ScanQrCode
  | LoginFailed
  | SentTo string string
  | AttemptFailed int string exn
  | FailedToSend string
  | InvalidPhoneSkipped string
  | CsvError string exn
  | NoValidContacts
  | StartingBulkSend nat
  | SentSummary nat nat
  | Interrupted
  | UnexpectedError exn
  | QuittingWebDriver

datatype effect =
    Log log_message string
  | Beep nat nat
  | Sleep nat
  | SleepUniform nat nat
  | ExecuteScript string

text \<open>
  The browser as the driver sees it: the window handles in the order the windows were
  opened (\<^verbatim>\<open>driver.window_handles\<close>), the window the driver is switched to (\<open>None\<close>
  once that window has been closed and no other has been switched to), the handle the
  next new window gets, and counters of browser launches and of \<^verbatim>\<open>driver.quit()\<close> calls.
\<close>

record world =
  handles :: "nat list"
  focus :: "nat option"
  next_handle :: nat
  launched :: nat
  quits :: nat
  trace :: "effect list"

definition initial_world :: world where
  "initial_world =
     \<lparr>handles = [], focus = None, next_handle = 0, launched = 0, quits = 0, trace = []\<rparr>"

text \<open>
  A statement or call of the program: from a world, it returns a value or raises, and
  leaves a world.
\<close>

type_synonym 'a action = "world \<Rightarrow> (exn + 'a) \<times> world"

definition ret :: "'a \<Rightarrow> 'a action" where
  "ret x w = (Inr x, w)"

definition raise :: "exn \<Rightarrow> 'a action" where
  "raise e w = (Inl e, w)"

definition bind :: "'a action \<Rightarrow> ('a \<Rightarrow> 'b action) \<Rightarrow> 'b action" where
  "bind m k w = (case m w of (Inl e, w') \<Rightarrow> (Inl e, w') | (Inr x, w') \<Rightarrow> k x w')"

definition seq :: "'a action \<Rightarrow> 'b action \<Rightarrow> 'b action" where
  "seq m k = bind m (\<lambda>_. k)"

fun block :: "unit action list \<Rightarrow> unit action" where
  "block [] = ret ()"
| "block (m # ms) = seq m (block ms)"

definition lift :: "exn + 'a \<Rightarrow> 'a action" where
  "lift r w = (r, w)"

text \<open>\<^verbatim>\<open>try: m except Exception as e: handler(e)\<close>: only instances of Exception are caught.\<close>

definition try_except :: "'a action \<Rightarrow> (exn \<Rightarrow> 'a action) \<Rightarrow> 'a action" where
  "try_except m handler w =
     (case m w of
        (Inl e, w') \<Rightarrow> if is_Exception e then handler e w' else (Inl e, w')
      | (Inr x, w') \<Rightarrow> (Inr x, w'))"

text \<open>
  \<^verbatim>\<open>try: m finally: fin\<close>: \<open>fin\<close> runs however \<open>m\<close> ends; an exception of \<open>fin\<close> replaces
  the outcome of \<open>m\<close>.
\<close>

definition try_finally :: "'a action \<Rightarrow> unit action \<Rightarrow> 'a action" where
  "try_finally m fin w =
     (case m w of
        (r, w') \<Rightarrow> (case fin w' of (Inl e, w'') \<Rightarrow> (Inl e, w'') | (Inr _, w'') \<Rightarrow> (r, w'')))"

definition emit :: "effect \<Rightarrow> unit action" where
  "emit e w = (Inr (), w\<lparr>trace := trace w @ [e]\<rparr>)"

definition log :: "log_message \<Rightarrow> string \<Rightarrow> unit action" where
  "log msg style = emit (Log msg style)"

definition beep_success :: "unit action" where
  "beep_success = emit (Beep 1000 200)"

definition beep_fail :: "unit action" where
  "beep_fail = emit (Beep 400 400)"

definition sleep :: "nat \<Rightarrow> unit action" where
  "sleep seconds = emit (Sleep seconds)"

definition sleep_uniform :: "nat \<Rightarrow> nat \<Rightarrow> unit action" where
  "sleep_uniform lo hi = emit (SleepUniform lo hi)"

subsection \<open>Driver calls\<close>

text \<open>
  A call into the browser can fail for reasons outside the program (the page did not
  load, the element never appeared, the browser stopped answering). Each call takes what
  the outside decides for it: \<open>None\<close> when the call goes through, \<open>Some e\<close> when it raises
  \<open>e\<close> and changes nothing. A call that goes through can still raise by the driver's own
  rules: there is no current window, or no window with the handle asked for.
\<close>

definition faulty :: "exn option \<Rightarrow> 'a action \<Rightarrow> 'a action" where
  "faulty outside m = (case outside of Some e \<Rightarrow> raise e | None \<Rightarrow> m)"

definition NoSuchWindowException :: exn where
  "NoSuchWindowException = Exception ''NoSuchWindowException''"

definition TimeoutException :: exn where
  "TimeoutException = Exception ''TimeoutException''"

definition current_window_handle :: "nat action" where
  "current_window_handle w =
     (case focus w of Some h \<Rightarrow> (Inr h, w) | None \<Rightarrow> (Inl NoSuchWindowException, w))"

definition window_handles :: "exn option \<Rightarrow> nat list action" where
  "window_handles outside = faulty outside (\<lambda>w. (Inr (handles w), w))"

text \<open>\<^verbatim>\<open>xs[-1]\<close>: IndexError on an empty list.\<close>

definition last_item :: "'a list \<Rightarrow> 'a action" where
  "last_item xs = (if xs = [] then raise (Exception ''IndexError'') else ret (last xs))"

text \<open>
  \<^verbatim>\<open>driver.execute_script("window.open('URL', '_blank');")\<close>: a new window, last in the list
  of handles; the driver stays switched to the window it was on.
\<close>

definition window_open_script :: "string \<Rightarrow> string" where
  "window_open_script url = ''window.open('' @ [CHR 0x27] @ url @ [CHR 0x27] @ '', '' @ [CHR 0x27] @ ''_blank'' @ [CHR 0x27] @ '');''"

definition execute_script :: "exn option \<Rightarrow> string \<Rightarrow> unit action" where
  "execute_script outside url =
     seq (emit (ExecuteScript (window_open_script url)))
       (faulty outside (\<lambda>w.
          case focus w of
            None \<Rightarrow> (Inl NoSuchWindowException, w)
          | Some _ \<Rightarrow>
              (Inr (), w\<lparr>handles := handles w @ [next_handle w],
                         next_handle := Suc (next_handle w)\<rparr>)))"

definition switch_to_window :: "exn option \<Rightarrow> nat \<Rightarrow> unit action" where
  "switch_to_window outside h =
     faulty outside (\<lambda>w.
       if h \<in> set (handles w) then (Inr (), w\<lparr>focus := Some h\<rparr>)
       else (Inl NoSuchWindowException, w))"

text \<open>\<^verbatim>\<open>driver.close()\<close> closes the current window and leaves the driver on no window.\<close>

definition close_window :: "exn option \<Rightarrow> unit action" where
  "close_window outside =
     faulty outside (\<lambda>w.
       case focus w of
         None \<Rightarrow> (Inl NoSuchWindowException, w)
       | Some h \<Rightarrow> (Inr (), w\<lparr>handles := removeAll h (handles w), focus := None\<rparr>))"

text \<open>
  Waiting for an element (\<^verbatim>\<open>WebDriverWait.until\<close>), typing into one and clicking one: the
  outcome is the outside's, a TimeoutException when the element does not show up in time.
\<close>

definition page_step :: "exn option \<Rightarrow> unit action" where
  "page_step outside = faulty outside (ret ())"

definition driver_quit :: "unit action" where
  "driver_quit w = (Inr (), w\<lparr>handles := [], focus := None, quits := Suc (quits w)\<rparr>)"

subsection \<open>\<^verbatim>\<open>urllib.parse.quote\<close>\<close>

text \<open>
  Letters, digits and \<^verbatim>\<open>_.-~/\<close> are kept; every other character is written as the bytes
  of its UTF-8 encoding, each as \<^verbatim>\<open>%XX\<close>: one byte below 128, two bytes from 128 to 255.
\<close>

definition hex_digit :: "nat \<Rightarrow> char" where
  "hex_digit n = ''0123456789ABCDEF'' ! n"

definition percent :: "nat \<Rightarrow> string" where
  "percent b = [CHR ''%'', hex_digit (b div 16), hex_digit (b mod 16)]"

definition quote_char :: "char \<Rightarrow> string" where
  "quote_char c =
     (if c \<in> set ''ABCDEFGHIJKLMNOPQRSTUVWXYZabcdefghijklmnopqrstuvwxyz0123456789_.-~/'' then [c]
      else if (of_char c :: nat) < 128 then percent (of_char c)
      else percent (192 + of_char c div 64) @ percent (128 + of_char c mod 64))"

definition quote :: "string \<Rightarrow> string" where
  "quote s = concat (map quote_char s)"

section \<open>The dispatch controller: \<^verbatim>\<open>send_whatsapp_message\<close>\<close>

definition RETRY_LIMIT :: int where
  "RETRY_LIMIT = 2"

definition MIN_DELAY_SEC :: nat where
  "MIN_DELAY_SEC = 3"

definition MAX_DELAY_SEC :: nat where
  "MAX_DELAY_SEC = 5"

text \<open>
  What the outside decides for the driver calls of one attempt, one field per call in the
  order of the source: the calls of the \<^verbatim>\<open>try\<close> body (lines 188 to 215) and the calls of
  the cleanup in the handler (lines 228 to 230).
\<close>

record attempt_env =
  open_tab :: "exn option"
  list_handles :: "exn option"
  switch_new :: "exn option"
  wait_input :: "exn option"
  send_enter :: "exn option"
  wait_button :: "exn option"
  click_button :: "exn option"
  close_tab :: "exn option"
  switch_back :: "exn option"
  cleanup_handles :: "exn option"
  cleanup_close :: "exn option"
  cleanup_switch :: "exn option"

text \<open>
  The outside of one call of \<^verbatim>\<open>send_whatsapp_message\<close>: the two clock strings the
  template gets, and the driver calls' outcomes by attempt number.
\<close>

record send_env =
  clock_date :: string
  clock_time :: string
  faults :: "int \<Rightarrow> attempt_env"

text \<open>The body of the \<^verbatim>\<open>try\<close> (lines 187 to 222, up to the \<^verbatim>\<open>return True\<close>).\<close>

definition attempt_body ::
    "attempt_env \<Rightarrow> string \<Rightarrow> string \<Rightarrow> string \<Rightarrow> nat \<Rightarrow> bool \<Rightarrow> unit action" where
  "attempt_body f name phone url main_window is_reply =
     block
      [execute_script (open_tab f) url,
       bind (window_handles (list_handles f)) (\<lambda>hs.
         bind (last_item hs) (\<lambda>h. switch_to_window (switch_new f) h)),
       page_step (wait_input f),
       sleep_uniform 1 3,
       try_except (page_step (send_enter f))
         (\<lambda>_. block [page_step (wait_button f), page_step (click_button f)]),
       log (SentTo name phone) ''green'',
       beep_success,
       sleep 2,
       close_window (close_tab f),
       switch_to_window (switch_back f) main_window,
       (if \<not> is_reply then sleep_uniform MIN_DELAY_SEC MAX_DELAY_SEC else ret ())]"

text \<open>The handler (lines 224 to 233): the warning, the cleanup, the pause.\<close>

definition on_failure :: "attempt_env \<Rightarrow> int \<Rightarrow> string \<Rightarrow> nat \<Rightarrow> exn \<Rightarrow> unit action" where
  "on_failure f attempt phone main_window e =
     block
      [log (AttemptFailed attempt phone e) ''yellow'',
       try_except
         (block
           [bind (window_handles (cleanup_handles f)) (\<lambda>hs.
              if length hs > 1 then close_window (cleanup_close f) else ret ()),
            switch_to_window (cleanup_switch f) main_window])
         (\<lambda>_. ret ()),
       sleep 5]"

text \<open>
  One turn of the loop: \<open>True\<close> when the body ran to its \<^verbatim>\<open>return True\<close>, \<open>False\<close> when
  the handler ran and the loop goes on.
\<close>

definition attempt_cycle ::
    "(int \<Rightarrow> attempt_env) \<Rightarrow> string \<Rightarrow> string \<Rightarrow> string \<Rightarrow> nat \<Rightarrow> bool \<Rightarrow> int \<Rightarrow> bool action" where
  "attempt_cycle fs name phone url main_window is_reply attempt =
     try_except
       (seq (attempt_body (fs attempt) name phone url main_window is_reply) (ret True))
       (\<lambda>e. seq (on_failure (fs attempt) attempt phone main_window e) (ret False))"

text \<open>
  The \<^verbatim>\<open>for\<close> loop over the attempt numbers, and the lines after it (235 to 237) once
  the numbers are used up.
\<close>

fun attempts ::
    "(int \<Rightarrow> attempt_env) \<Rightarrow> string \<Rightarrow> string \<Rightarrow> string \<Rightarrow> nat \<Rightarrow> bool \<Rightarrow> int list \<Rightarrow> bool action" where
  "attempts fs name phone url main_window is_reply [] =
     seq (log (FailedToSend phone) ''red'') (seq beep_fail (ret False))"
| "attempts fs name phone url main_window is_reply (attempt # rest) =
     bind (attempt_cycle fs name phone url main_window is_reply attempt) (\<lambda>sent.
       if sent then ret True
       else attempts fs name phone url main_window is_reply rest)"

definition outgoing_message :: "send_env \<Rightarrow> string \<Rightarrow> string \<Rightarrow> string \<Rightarrow> bool \<Rightarrow> exn + string" where
  "outgoing_message env name phone raw_message is_reply =
     (if \<not> is_reply
      then render_message_template (clock_date env) (clock_time env) raw_message name phone
      else Inr raw_message)"

definition deep_link :: "string \<Rightarrow> string \<Rightarrow> string" where
  "deep_link phone message =
     ''https://web.whatsapp.com/send?phone='' @ phone @ ''&text='' @ quote message"

text \<open>\<^verbatim>\<open>range(1, retry_limit + 1)\<close> is the list \<open>[1..retry_limit]\<close>, empty when \<open>retry_limit < 1\<close>.\<close>

definition send_whatsapp_message ::
    "send_env \<Rightarrow> string \<Rightarrow> string \<Rightarrow> string \<Rightarrow> int \<Rightarrow> bool \<Rightarrow> bool action" where
  "send_whatsapp_message env name phone raw_message retry_limit is_reply =
     bind (lift (outgoing_message env name phone raw_message is_reply)) (\<lambda>message.
     bind current_window_handle (\<lambda>main_window.
       attempts (faults env) name phone (deep_link phone message) main_window is_reply
         [1..retry_limit]))"

section \<open>Contacts: \<^verbatim>\<open>load_contacts_from_csv\<close>\<close>

text \<open>
  \<^verbatim>\<open>str.strip()\<close> removes the white space at both ends, \<^verbatim>\<open>str.replace(c, "")\<close> removes
  every \<open>c\<close>, and \<^verbatim>\<open>str.isdigit()\<close> holds of a string that is not empty and whose
  characters are all digits. Below code point 256 the white space characters are
  9 to 13, 28 to 32, 133 and 160, and the digits are 0 to 9 and the superscripts
  178, 179 and 185.
\<close>

definition is_space :: "char \<Rightarrow> bool" where
  "is_space c \<longleftrightarrow>
     c \<in> set [CHR 0x09, CHR 0x0A, CHR 0x0B, CHR 0x0C, CHR 0x0D, CHR 0x1C, CHR 0x1D, CHR 0x1E,
              CHR 0x1F, CHR 0x20, CHR 0x85, CHR 0xA0]"

definition is_digit :: "char \<Rightarrow> bool" where
  "is_digit c \<longleftrightarrow> c \<in> set ''0123456789'' \<or> c \<in> set [CHR 0xB2, CHR 0xB3, CHR 0xB9]"

definition strip :: "string \<Rightarrow> string" where
  "strip s = rev (dropWhile is_space (rev (dropWhile is_space s)))"

definition remove_char :: "char \<Rightarrow> string \<Rightarrow> string" where
  "remove_char c s = filter (\<lambda>x. x \<noteq> c) s"

definition isdigit :: "string \<Rightarrow> bool" where
  "isdigit s \<longleftrightarrow> s \<noteq> [] \<and> list_all is_digit s"

text \<open>
  A row of \<^verbatim>\<open>csv.DictReader\<close> maps the column names of the header to the row's fields;
  a row with fewer fields than the header has \<^verbatim>\<open>None\<close> for the missing ones.
  \<^verbatim>\<open>row.get(key, default)\<close> gives the default only when the key itself is missing, and
  \<^verbatim>\<open>None.strip()\<close> raises AttributeError.
\<close>

datatype pyval = PyNone | PyStr string

type_synonym row = "string \<rightharpoonup> pyval"

definition row_get :: "row \<Rightarrow> string \<Rightarrow> string \<Rightarrow> pyval" where
  "row_get r key dflt = (case r key of None \<Rightarrow> PyStr dflt | Some v \<Rightarrow> v)"

fun strip_method :: "pyval \<Rightarrow> string action" where
  "strip_method PyNone = raise (Exception ''AttributeError'')"
| "strip_method (PyStr s) = ret (strip s)"

record contact =
  contact_name :: string
  contact_phone :: string
  contact_message :: string

text \<open>The body of the loop over the rows (lines 251 to 260).\<close>

definition process_row :: "row \<Rightarrow> contact list \<Rightarrow> contact list action" where
  "process_row r contacts =
     bind (strip_method (row_get r ''Phone'' [])) (\<lambda>raw_phone.
     bind (strip_method (row_get r ''Name'' [])) (\<lambda>name.
     bind (strip_method (row_get r ''Message'' [])) (\<lambda>message.
       let phone = remove_char (CHR '' '') (remove_char (CHR ''+'') raw_phone) in
       if isdigit phone \<and> length phone \<ge> 10
       then ret (contacts @
              [\<lparr>contact_name = name, contact_phone = phone, contact_message = message\<rparr>])
       else seq (log (InvalidPhoneSkipped raw_phone) ''yellow'') (ret contacts))))"

text \<open>
  The file as the program meets it: it cannot be opened, or it yields rows and then ends,
  or it yields rows and then the reader raises (a decoding or a read error).
\<close>

datatype csv_source = CannotOpen exn | Rows "row list" "exn option"

fun read_rows :: "row list \<Rightarrow> exn option \<Rightarrow> contact list \<Rightarrow> contact list action" where
  "read_rows [] after contacts = (case after of None \<Rightarrow> ret contacts | Some e \<Rightarrow> raise e)"
| "read_rows (r # rs) after contacts = bind (process_row r contacts) (read_rows rs after)"

definition read_csv :: "csv_source \<Rightarrow> contact list action" where
  "read_csv src = (case src of CannotOpen e \<Rightarrow> raise e | Rows rs after \<Rightarrow> read_rows rs after [])"

definition load_contacts_from_csv :: "csv_source \<Rightarrow> string \<Rightarrow> contact list action" where
  "load_contacts_from_csv src csv_path =
     bind (try_except (read_csv src)
             (\<lambda>e. seq (log (CsvError csv_path e) ''red'') (raise e)))
       (\<lambda>contacts.
          seq (if contacts = [] then log NoValidContacts ''red'' else ret ()) (ret contacts))"

text \<open>
  The claim's words for a phone value: remove every \<^verbatim>\<open>+\<close> and every space; what is left
  is all digits and at least ten characters long.
\<close>

definition normalized :: "string \<Rightarrow> string" where
  "normalized raw = filter (\<lambda>c. c \<noteq> CHR ''+'' \<and> c \<noteq> CHR '' '') raw"

definition phone_accepted :: "string \<Rightarrow> bool" where
  "phone_accepted raw \<longleftrightarrow> list_all is_digit (normalized raw) \<and> length (normalized raw) \<ge> 10"

text \<open>
  For stating what the loader returns: the three fields of a row as strings (a missing
  column reads as the empty string), whether a row has \<^verbatim>\<open>None\<close> in one of them, the
  contact an accepted row becomes and the warning a rejected row leaves.
\<close>

definition trimmed_field :: "row \<Rightarrow> string \<Rightarrow> string" where
  "trimmed_field r key = (case r key of Some (PyStr s) \<Rightarrow> strip s | _ \<Rightarrow> [])"

definition complete_row :: "row \<Rightarrow> bool" where
  "complete_row r \<longleftrightarrow>
     r ''Phone'' \<noteq> Some PyNone \<and> r ''Name'' \<noteq> Some PyNone \<and> r ''Message'' \<noteq> Some PyNone"

definition row_contact :: "row \<Rightarrow> contact" where
  "row_contact r =
     \<lparr>contact_name = trimmed_field r ''Name'', contact_phone = normalized (trimmed_field r ''Phone''),
      contact_message = trimmed_field r ''Message''\<rparr>"

definition row_accepted :: "row \<Rightarrow> bool" where
  "row_accepted r \<longleftrightarrow> phone_accepted (trimmed_field r ''Phone'')"

definition row_warning :: "row \<Rightarrow> effect" where
  "row_warning r = Log (InvalidPhoneSkipped (trimmed_field r ''Phone'')) ''yellow''"

section \<open>The main workflow: \<^verbatim>\<open>main_bulk_send\<close>\<close>

definition CSV_FILE :: string where
  "CSV_FILE = ''contacts.csv''"

text \<open>
  The outside of one run: the session directory, the outcome of the request of the
  connectivity check, of the browser launch and of the three driver settings after it,
  of \<^verbatim>\<open>driver.get\<close>, of the waits for the chat list (the first probe is number 0, the
  probe after the QR prompt number 1), of \<^verbatim>\<open>input()\<close>, the contacts file, and the
  outside of each send by the contact's position in the list.
\<close>

record main_env =
  session_dir :: string
  urlopen :: "exn option"
  chrome :: "exn option"
  driver_setup :: "exn option"
  get_page :: "exn option"
  login_wait :: "nat \<Rightarrow> exn option"
  user_input :: "exn option"
  csv_file :: csv_source
  send_envs :: "nat \<Rightarrow> send_env"

text \<open>
  The calls whose outcome is the outside's alone: the request of the connectivity check
  (\<^verbatim>\<open>urllib.request.urlopen\<close> with its timeout), the three settings of a new driver
  (page load timeout, implicit wait, maximized window), the page load \<^verbatim>\<open>driver.get\<close>, and
  \<^verbatim>\<open>input()\<close>.
\<close>

definition urlopen_request :: "exn option \<Rightarrow> unit action" where
  "urlopen_request outside = faulty outside (ret ())"

definition driver_settings :: "exn option \<Rightarrow> unit action" where
  "driver_settings outside = faulty outside (ret ())"

definition driver_get :: "exn option \<Rightarrow> unit action" where
  "driver_get outside = faulty outside (ret ())"

definition console_input :: "exn option \<Rightarrow> unit action" where
  "console_input outside = faulty outside (ret ())"

text \<open>\<^verbatim>\<open>exit(n)\<close> raises SystemExit.\<close>

definition sys_exit :: "int \<Rightarrow> 'a action" where
  "sys_exit n = raise (SystemExit n)"

definition check_internet_connection :: "exn option \<Rightarrow> bool action" where
  "check_internet_connection outside =
     try_except (seq (urlopen_request outside) (ret True))
       (\<lambda>e. seq (log (NetworkError e) ''red'') (ret False))"

definition launch_chrome :: "exn option \<Rightarrow> Options \<Rightarrow> unit action" where
  "launch_chrome outside chrome_options =
     faulty outside (\<lambda>w.
       (Inr (), w\<lparr>handles := [next_handle w], focus := Some (next_handle w),
                  next_handle := Suc (next_handle w), launched := Suc (launched w)\<rparr>))"

definition initialize_driver :: "main_env \<Rightarrow> unit action" where
  "initialize_driver env =
     bind (lift (configure_chrome_options (session_dir env))) (\<lambda>chrome_options.
       seq (launch_chrome (chrome env) chrome_options) (driver_settings (driver_setup env)))"

text \<open>Only a TimeoutException of the wait is caught.\<close>

definition wait_for_whatsapp_login :: "exn option \<Rightarrow> bool action" where
  "wait_for_whatsapp_login outside w =
     (case outside of
        None \<Rightarrow> (Inr True, w)
      | Some e \<Rightarrow> if e = TimeoutException then (Inr False, w) else (Inl e, w))"

definition prompt_qr_scan :: "main_env \<Rightarrow> unit action" where
  "prompt_qr_scan env =
     block
      [log ScanQrCode ''cyan'',
       console_input (user_input env),
       bind (wait_for_whatsapp_login (login_wait env 1)) (\<lambda>logged_in.
         if \<not> logged_in
         then block [log LoginFailed ''red'', driver_quit, sys_exit 1]
         else ret ())]"

text \<open>The loop over the contacts (lines 292 to 297), with the position in the list.\<close>

fun send_all :: "(nat \<Rightarrow> send_env) \<Rightarrow> nat \<Rightarrow> contact list \<Rightarrow> nat \<Rightarrow> nat action" where
  "send_all envs i [] success_count = ret success_count"
| "send_all envs i (c # cs) success_count =
     bind (send_whatsapp_message (envs i) (contact_name c) (contact_phone c)
             (contact_message c) RETRY_LIMIT False)
       (\<lambda>sent. send_all envs (Suc i) cs (if sent then success_count + 1 else success_count))"

text \<open>The body of the \<^verbatim>\<open>try\<close> of \<^verbatim>\<open>main_bulk_send\<close> (lines 281 to 302).\<close>

definition session_body :: "main_env \<Rightarrow> unit action" where
  "session_body env =
     seq (driver_get (get_page env))
    (seq (bind (wait_for_whatsapp_login (login_wait env 0)) (\<lambda>logged_in.
            if \<not> logged_in then prompt_qr_scan env else ret ()))
    (bind (load_contacts_from_csv (csv_file env) CSV_FILE) (\<lambda>contacts.
       if contacts = [] then ret ()
       else
         seq (log (StartingBulkSend (length contacts)) ''magenta'')
        (bind (send_all (send_envs env) 0 contacts 0) (\<lambda>success_count.
           log (SentSummary success_count (length contacts))
             (if success_count = length contacts then ''bold green'' else ''bold yellow''))))))"

text \<open>
  The two \<^verbatim>\<open>except\<close> clauses of \<^verbatim>\<open>main_bulk_send\<close>: a KeyboardInterrupt is reported and
  ends there, an Exception is reported and raised again, a SystemExit passes.
\<close>

definition main_handlers :: "unit action \<Rightarrow> unit action" where
  "main_handlers m w =
     (case m w of
        (Inl KeyboardInterrupt, w') \<Rightarrow> log Interrupted ''yellow'' w'
      | (Inl (Exception msg), w') \<Rightarrow>
          seq (log (UnexpectedError (Exception msg)) ''red'') (raise (Exception msg)) w'
      | (Inl (SystemExit n), w') \<Rightarrow> (Inl (SystemExit n), w')
      | (Inr x, w') \<Rightarrow> (Inr x, w'))"

definition main_bulk_send :: "main_env \<Rightarrow> unit action" where
  "main_bulk_send env =
     bind (check_internet_connection (urlopen env)) (\<lambda>online.
       if \<not> online then sys_exit 1
       else
         seq (initialize_driver env)
           (try_finally (main_handlers (session_body env))
              (seq (log QuittingWebDriver ''blue'') driver_quit)))"


definition run_process :: "main_env \<Rightarrow> (exn + unit) \<times> world" where
  "run_process env = main_bulk_send env initial_world"

section \<open>Notions used in the statements\<close>

text \<open>A Python identifier as the template pattern reads it.\<close>

definition valid_identifier :: "string \<Rightarrow> bool" where
  "valid_identifier ident \<longleftrightarrow>
     ident \<noteq> [] \<and> is_id_start (hd ident) \<and> list_all is_id_char ident"


text \<open>The world right after the browser has been launched from the initial world.\<close>

definition session_world :: world where
  "session_world =
     \<lparr>handles = [0], focus = Some 0, next_handle = 1, launched = 1, quits = 0, trace = []\<rparr>"

text \<open>
  Sample inputs for the concrete runs below: a row with its three fields, an outside in
  which every driver call of an attempt goes through, and a run in which nothing fails
  before the contacts file is read.
\<close>

definition csv_row :: "string \<Rightarrow> string \<Rightarrow> string \<Rightarrow> row" where
  "csv_row phone name message =
     [''Phone'' \<mapsto> PyStr phone, ''Name'' \<mapsto> PyStr name, ''Message'' \<mapsto> PyStr message]"

definition no_faults :: attempt_env where
  "no_faults =
     \<lparr>open_tab = None, list_handles = None, switch_new = None, wait_input = None,
      send_enter = None, wait_button = None, click_button = None, close_tab = None,
      switch_back = None, cleanup_handles = None, cleanup_close = None, cleanup_switch = None\<rparr>"

definition sample_send_env :: "(int \<Rightarrow> attempt_env) \<Rightarrow> send_env" where
  "sample_send_env fs = \<lparr>clock_date = ''2024-01-01'', clock_time = ''12:00'', faults = fs\<rparr>"

definition sample_env :: "csv_source \<Rightarrow> (nat \<Rightarrow> int \<Rightarrow> attempt_env) \<Rightarrow> main_env" where
  "sample_env src fs =
     \<lparr>session_dir = ''whatsapp_session'', urlopen = None, chrome = None, driver_setup = None,
      get_page = None, login_wait = (\<lambda>_. None), user_input = None, csv_file = src,
      send_envs = (\<lambda>i. sample_send_env (fs i))\<rparr>"






text \<open>
  The driver is on the window \<open>h\<close>, which is open, and the handle of the next new
  window is not in use.
\<close>

definition anchored :: "world \<Rightarrow> nat \<Rightarrow> bool" where
  "anchored w h \<longleftrightarrow> focus w = Some h \<and> h \<in> set (handles w) \<and> list_all (\<lambda>x. x < next_handle w) (handles w)"






text \<open>
  Three attempts for the concrete runs: the input box never shows up; the same, and in
  the handler \<^verbatim>\<open>driver.close()\<close> raises; the message is submitted, and the
  \<^verbatim>\<open>driver.close()\<close> after it raises.
\<close>

definition input_timeout :: attempt_env where
  "input_timeout = no_faults\<lparr>wait_input := Some TimeoutException\<rparr>"

definition timeout_cleanup_raises :: attempt_env where
  "timeout_cleanup_raises =
     no_faults\<lparr>wait_input := Some TimeoutException,
               cleanup_close := Some (Exception ''WebDriverException'')\<rparr>"

definition close_raises_after_submit :: attempt_env where
  "close_raises_after_submit = no_faults\<lparr>close_tab := Some (Exception ''WebDriverException'')\<rparr>"


text \<open>
  Six runs of the program: the network is down; the browser does not start; the chat
  list never shows up; the contacts file is missing; two contacts, of which the first is
  sent to and the second times out in every attempt; one contact, and the user interrupts
  the wait for the input box.
\<close>

definition offline_run :: main_env where
  "offline_run = sample_env (Rows [] None) (\<lambda>_ _. no_faults)\<lparr>urlopen := Some (Exception ''URLError'')\<rparr>"

definition no_browser_run :: main_env where
  "no_browser_run =
     sample_env (Rows [] None) (\<lambda>_ _. no_faults)\<lparr>chrome := Some (Exception ''WebDriverException'')\<rparr>"

definition login_failure_run :: main_env where
  "login_failure_run =
     sample_env (Rows [] None) (\<lambda>_ _. no_faults)\<lparr>login_wait := \<lambda>_. Some TimeoutException\<rparr>"

definition missing_file_run :: main_env where
  "missing_file_run = sample_env (CannotOpen (Exception ''FileNotFoundError'')) (\<lambda>_ _. no_faults)"

definition partial_failure_run :: main_env where
  "partial_failure_run =
     sample_env
       (Rows [csv_row ''+1 555 123 4567'' ''Ana'' ''Hi $name'', csv_row ''15550001111'' ''Bob'' ''Hi'']
          None)
       (\<lambda>i _. if i = 0 then no_faults else input_timeout)"

definition interrupted_run :: main_env where
  "interrupted_run =
     sample_env (Rows [csv_row ''+1 555 123 4567'' ''Ana'' ''Hi $name''] None)
       (\<lambda>_ _. no_faults\<lparr>wait_input := Some KeyboardInterrupt\<rparr>)"

section \<open>Verification: browser options\<close>

lemma configure_chrome_options_value:
  "configure_chrome_options d = Inr
     \<lparr>arguments =
        [''--user-data-dir='' @ d, ''--profile-directory=Default'',
         ''--disable-blink-features=AutomationControlled'',
         ''--disable-gpu'', ''--no-sandbox'', ''--disable-dev-shm-usage'',
         ''--log-level=3'', ''--disable-logging'', ''--disable-crash-reporter'',
         ''--disable-breakpad'', ''--disable-component-update'',
         ''--disable-background-networking'', ''--disable-default-apps'',
         ''--disable-features=TranslateUI'', ''--no-first-run'', ''--no-service-autorun'',
         ''--metrics-recording-only''],
      experimental_options =
        [''excludeSwitches'' \<mapsto> Switches [''enable-logging''],
         ''useAutomationExtension'' \<mapsto> Flag False]\<rparr>"
  by (simp add: configure_chrome_options_def add_argument_def add_experimental_option_def
      new_Options_def fun_upd_twist)

text \<open>
  C8, evaluated on the code: the options object the function returns has the persistent
  profile path and the blink-feature argument among its arguments, but its
  \<^verbatim>\<open>excludeSwitches\<close> entry is the list of the last assignment alone, so
  \<^verbatim>\<open>enable-automation\<close> is not excluded.
\<close>

theorem configure_chrome_options_excludeSwitches:
  "\<exists>opts excluded. configure_chrome_options d = Inr opts \<and>
     ''--user-data-dir='' @ d \<in> set (arguments opts) \<and>
     ''--disable-blink-features=AutomationControlled'' \<in> set (arguments opts) \<and>
     experimental_options opts ''excludeSwitches'' = Some (Switches excluded) \<and>
     excluded = [''enable-logging''] \<and> ''enable-automation'' \<notin> set excluded"
  by (simp add: configure_chrome_options_value)

section \<open>Verification: message templates\<close>

declare pattern_match.simps(2) [simp del]
lemmas match_defs = escaped_match_def named_match_def braced_match_def invalid_match_def

lemma not_id_char_dollar: "\<not> is_id_char (CHR ''$'')"
  by (simp add: is_id_char_def is_id_start_def)

lemma not_id_char_brace: "\<not> is_id_char (CHR ''}'')"
  by (simp add: is_id_char_def is_id_start_def)

lemma id_start_is_id_char: "is_id_start c \<Longrightarrow> is_id_char c"
  by (simp add: is_id_char_def)

lemma takeWhile_stop: "\<not> P y \<Longrightarrow> takeWhile P (xs @ y # ys) = takeWhile P xs"
  by (induction xs) auto

lemma dropWhile_stop: "\<not> P y \<Longrightarrow> dropWhile P (xs @ y # ys) = dropWhile P xs @ y # ys"
  by (induction xs) auto

lemma last_dropWhile: "dropWhile P xs \<noteq> [] \<Longrightarrow> last (dropWhile P xs) = last xs"
  by (induction xs) (auto split: if_splits)

lemma pattern_match_group:
  assumes "pattern_match s = Some (mo, rest)"
  shows "mo = escaped_match \<or> mo = invalid_match
       \<or> (\<exists>ident. ident \<noteq> [] \<and> (mo = named_match ident \<or> mo = braced_match ident))"
proof (cases s)
  case Nil
  with assms show ?thesis by simp
next
  case (Cons c cs)
  show ?thesis
  proof (cases cs)
    case Nil
    with assms Cons show ?thesis by (auto simp: pattern_match.simps split: if_splits)
  next
    case (Cons d ds)
    have "is_id_start d \<Longrightarrow> takeWhile is_id_char (d # ds) \<noteq> []"
      by (simp add: id_start_is_id_char)
    moreover have "\<And>ident r. braced_ident ds = Some (ident, r) \<Longrightarrow> ident \<noteq> []"
      by (cases ds) (auto simp: braced_ident_def id_start_is_id_char split: list.splits if_splits)
    ultimately show ?thesis
      using assms \<open>s = c # cs\<close> Cons
      by (auto simp: pattern_match.simps split: if_splits option.splits)
  qed
qed

lemma convert_returns:
  assumes "pattern_match s = Some (mo, rest)"
  shows "\<exists>r. convert m mo = Inr r"
  using pattern_match_group [OF assms]
  by (auto simp: convert_def py_or_def match_defs split: option.splits)

lemma re_sub_returns:
  assumes conv: "\<And>s mo rest. pattern_match s = Some (mo, rest) \<Longrightarrow> \<exists>r. conv mo = Inr r"
  shows "\<exists>out. re_sub conv t = Inr out"
proof (induction "length t" arbitrary: t rule: less_induct)
  case less
  show ?case
  proof (cases t)
    case Nil
    then show ?thesis by simp
  next
    case (Cons c cs)
    show ?thesis
    proof (cases "pattern_match (c # cs)")
      case None
      from less [of cs] Cons obtain out where "re_sub conv cs = Inr out" by auto
      with None Cons show ?thesis by simp
    next
      case (Some x)
      obtain mo rest where x: "x = (mo, rest)" by (cases x)
      from Some x have pm: "pattern_match (c # cs) = Some (mo, rest)" by simp
      from conv [OF pm] obtain r where r: "conv mo = Inr r" by blast
      from pattern_match_shorter [OF pm] Cons have "length rest < length t" by simp
      from less [OF this] obtain out where "re_sub conv rest = Inr out" by blast
      with pm r Cons show ?thesis by simp
    qed
  qed
qed

lemma re_sub_no_delimiter: "CHR ''$'' \<notin> set s \<Longrightarrow> re_sub conv s = Inr s"
  by (induction s) (auto simp: pattern_match.simps)

lemma pattern_match_extend:
  assumes "pattern_match pre = Some (mo, rest)" and "last pre \<noteq> CHR ''$''"
  shows "pattern_match (pre @ CHR ''$'' # s) = Some (mo, rest @ CHR ''$'' # s)
         \<and> (rest = [] \<or> last rest \<noteq> CHR ''$'')"
proof -
  from assms obtain d ds where pre: "pre = CHR ''$'' # d # ds"
    by (cases pre; cases "tl pre") (auto simp: pattern_match.simps split: if_splits)
  note st = takeWhile_stop [of is_id_char "CHR ''$''", OF not_id_char_dollar]
    dropWhile_stop [of is_id_char "CHR ''$''", OF not_id_char_dollar]
  have l: "ds \<noteq> [] \<Longrightarrow> last ds \<noteq> CHR ''$''" using assms(2) pre by simp
  have l2: "d \<noteq> CHR ''$''  \<or> ds \<noteq> []" using assms(2) pre by auto
  show ?thesis
  proof (cases "d = CHR ''$''")
    case True
    with assms pre l show ?thesis by (auto simp: pattern_match.simps)
  next
    case nd: False
    show ?thesis
    proof (cases "is_id_start d")
      case True
      have "dropWhile is_id_char (d # ds) \<noteq> [] \<Longrightarrow> last (dropWhile is_id_char (d # ds)) \<noteq> CHR ''$''"
        using last_dropWhile [of is_id_char "d # ds"] assms(2) pre by simp
      with True nd assms pre st [of "d # ds" s] id_start_is_id_char [OF True] show ?thesis
        by (auto simp: pattern_match.simps)
    next
      case ns: False
      show ?thesis
      proof (cases "d = CHR ''{''")
        case False
        with ns nd assms pre show ?thesis by (auto simp: pattern_match.simps)
      next
        case True
        have b: "braced_ident (ds @ CHR ''$'' # s) =
            map_option (\<lambda>(i, r). (i, r @ CHR ''$'' # s)) (braced_ident ds)"
        proof (cases "dropWhile is_id_char ds")
          case Nil
          show ?thesis unfolding braced_ident_def st Nil by simp
        next
          case (Cons e es)
          then have "ds \<noteq> []" by auto
          then show ?thesis unfolding braced_ident_def st Cons by simp
        qed
        have "\<And>i r. braced_ident ds = Some (i, r) \<Longrightarrow> r = [] \<or> last r \<noteq> CHR ''$''"
        proof -
          fix i r assume "braced_ident ds = Some (i, r)"
          then obtain e where e: "dropWhile is_id_char ds = e # r"
            by (auto simp: braced_ident_def split: list.splits if_splits)
          then have "ds \<noteq> []" by auto
          show "r = [] \<or> last r \<noteq> CHR ''$''"
            using last_dropWhile [of is_id_char ds] e l [OF \<open>ds \<noteq> []\<close>] by auto
        qed
        with True ns nd assms pre b show ?thesis
          by (auto simp: pattern_match.simps split: option.splits)
      qed
    qed
  qed
qed


lemma re_sub_split:
  assumes "pre = [] \<or> last pre \<noteq> CHR ''$''"
    and "re_sub conv pre = Inr a" and "re_sub conv (CHR ''$'' # s) = Inr b"
  shows "re_sub conv (pre @ CHR ''$'' # s) = Inr (a @ b)"
  using assms(1,2)
proof (induction "length pre" arbitrary: pre a rule: less_induct)
  case less
  show ?case
  proof (cases pre)
    case Nil
    with less.prems assms(3) show ?thesis by simp
  next
    case (Cons c cs)
    show ?thesis
    proof (cases "pattern_match (c # cs)")
      case None
      then have c: "c \<noteq> CHR ''$''"
        by (auto simp: pattern_match.simps split: if_splits list.splits option.splits)
      then have n2: "pattern_match (c # cs @ CHR ''$'' # s) = None" by (simp add: pattern_match.simps)
      from less.prems(2) None Cons obtain a' where a': "re_sub conv cs = Inr a'" "a = c # a'"
        by (auto split: sum.splits)
      from less.prems(1) Cons have "cs = [] \<or> last cs \<noteq> CHR ''$''" by (auto split: if_splits)
      from less.hyps [OF _ this a'(1)] Cons have "re_sub conv (cs @ CHR ''$'' # s) = Inr (a' @ b)" by simp
      with n2 a' Cons show ?thesis by simp
    next
      case (Some x)
      obtain mo rest where x: "x = (mo, rest)" by (cases x)
      from Some x Cons have pm: "pattern_match pre = Some (mo, rest)" by simp
      from less.prems(1) Cons have lp: "last pre \<noteq> CHR ''$''" by auto
      from pattern_match_extend [OF pm lp, of s]
      have pm2: "pattern_match (pre @ CHR ''$'' # s) = Some (mo, rest @ CHR ''$'' # s)"
        and r: "rest = [] \<or> last rest \<noteq> CHR ''$''" by auto
      from less.prems(2) pm Cons obtain v a' where a': "conv mo = Inr v" "re_sub conv rest = Inr a'" "a = v @ a'"
        by (auto split: sum.splits)
      from pattern_match_shorter [OF pm] have "length rest < length pre" .
      from less.hyps [OF this r a'(2)] have "re_sub conv (rest @ CHR ''$'' # s) = Inr (a' @ b)" .
      with pm2 a' Cons show ?thesis by simp
    qed
  qed
qed

lemma takeWhile_all: "list_all P xs \<Longrightarrow> \<not> P y \<Longrightarrow> takeWhile P (xs @ y # ys) = xs"
  by (induction xs) auto

lemma dropWhile_all: "list_all P xs \<Longrightarrow> \<not> P y \<Longrightarrow> dropWhile P (xs @ y # ys) = y # ys"
  by (induction xs) auto

lemma takeWhile_all_end: "list_all P xs \<Longrightarrow> ys = [] \<or> \<not> P (hd ys) \<Longrightarrow> takeWhile P (xs @ ys) = xs"
  by (induction xs) (auto simp: takeWhile_eq_Nil_iff neq_Nil_conv)

lemma dropWhile_all_end: "list_all P xs \<Longrightarrow> ys = [] \<or> \<not> P (hd ys) \<Longrightarrow> dropWhile P (xs @ ys) = ys"
  by (induction xs) (auto simp: dropWhile_eq_self_iff)

lemma not_id_start_special: "\<not> is_id_start (CHR ''$'')" "\<not> is_id_start (CHR ''{'')"
  by (simp_all add: is_id_start_def)

lemma pattern_match_braced:
  assumes "valid_identifier ident"
  shows "pattern_match (''${'' @ ident @ ''}'' @ post) = Some (braced_match ident, post)"
proof -
  from assms obtain c cs where i: "ident = c # cs" "is_id_start c" "list_all is_id_char ident"
    by (cases ident) (auto simp: valid_identifier_def)
  have "braced_ident (ident @ CHR ''}'' # post) = Some (ident, post)"
    unfolding braced_ident_def
      takeWhile_all [OF i(3) not_id_char_brace] dropWhile_all [OF i(3) not_id_char_brace]
    using i(1,2) by simp
  then show ?thesis by (simp add: pattern_match.simps not_id_start_special)
qed

lemma pattern_match_named:
  assumes "valid_identifier ident" and "post = [] \<or> \<not> is_id_char (hd post)"
  shows "pattern_match (CHR ''$'' # ident @ post) = Some (named_match ident, post)"
proof -
  from assms obtain c cs where i: "ident = c # cs" "is_id_start c" "list_all is_id_char ident"
    by (cases ident) (auto simp: valid_identifier_def)
  from i(2) have "c \<noteq> CHR ''$''" using not_id_start_special(1) by auto
  moreover have "takeWhile is_id_char (ident @ post) = ident" "dropWhile is_id_char (ident @ post) = post"
    using takeWhile_all_end [OF i(3) assms(2)] dropWhile_all_end [OF i(3) assms(2)] by auto
  ultimately show ?thesis using i(1,2) by (simp add: pattern_match.simps)
qed

lemma convert_unresolved:
  assumes "ident \<noteq> []" and "m ident = None"
  shows "convert m (braced_match ident) = Inr (''${'' @ ident @ ''}'')"
    and "convert m (named_match ident) = Inr (CHR ''$'' # ident)"
  using assms by (auto simp: convert_def py_or_def match_defs split: option.splits)

lemma safe_substitute_returns: "\<exists>out. safe_substitute m t = Inr out"
  unfolding safe_substitute_def by (rule re_sub_returns) (rule convert_returns)

lemma safe_substitute_braced_verbatim:
  assumes "valid_identifier ident" and "m ident = None" and "pre = [] \<or> last pre \<noteq> CHR ''$''"
  shows "\<exists>a b. safe_substitute m pre = Inr a \<and> safe_substitute m post = Inr b \<and>
           safe_substitute m (pre @ ''${'' @ ident @ ''}'' @ post) = Inr (a @ ''${'' @ ident @ ''}'' @ b)"
proof -
  obtain a where a: "safe_substitute m pre = Inr a" using safe_substitute_returns by blast
  obtain b where b: "safe_substitute m post = Inr b" using safe_substitute_returns by blast
  from assms(1) have ne: "ident \<noteq> []" by (simp add: valid_identifier_def)
  have "re_sub (convert m) (CHR ''$'' # (''{'' @ ident @ ''}'' @ post)) = Inr ((''${'' @ ident @ ''}'') @ b)"
    using pattern_match_braced [OF assms(1), of post] convert_unresolved(1) [of ident m, OF ne assms(2)] b
    by (simp add: safe_substitute_def)
  from re_sub_split [OF assms(3) a [unfolded safe_substitute_def] this]
  have "safe_substitute m (pre @ ''${'' @ ident @ ''}'' @ post) = Inr (a @ ''${'' @ ident @ ''}'' @ b)"
    by (simp add: safe_substitute_def)
  with a b show ?thesis by blast
qed

lemma safe_substitute_named_verbatim:
  assumes "valid_identifier ident" and "m ident = None" and "pre = [] \<or> last pre \<noteq> CHR ''$''"
    and "post = [] \<or> \<not> is_id_char (hd post)"
  shows "\<exists>a b. safe_substitute m pre = Inr a \<and> safe_substitute m post = Inr b \<and>
           safe_substitute m (pre @ CHR ''$'' # ident @ post) = Inr (a @ CHR ''$'' # ident @ b)"
proof -
  obtain a where a: "safe_substitute m pre = Inr a" using safe_substitute_returns by blast
  obtain b where b: "safe_substitute m post = Inr b" using safe_substitute_returns by blast
  from assms(1) have ne: "ident \<noteq> []" by (simp add: valid_identifier_def)
  have "re_sub (convert m) (CHR ''$'' # (ident @ post)) = Inr ((CHR ''$'' # ident) @ b)"
    using pattern_match_named [OF assms(1,4)] convert_unresolved(2) [of ident m, OF ne assms(2)] b
    by (simp add: safe_substitute_def)
  from re_sub_split [OF assms(3) a [unfolded safe_substitute_def] this]
  have "safe_substitute m (pre @ CHR ''$'' # ident @ post) = Inr (a @ CHR ''$'' # ident @ b)"
    by (simp add: safe_substitute_def)
  with a b show ?thesis by blast
qed

lemma render_message_template_returns:
  "\<exists>out. render_message_template d t template_str name phone = Inr out"
  unfolding render_message_template_def by (rule safe_substitute_returns)

lemma substitutions_unresolved:
  "ident \<notin> {''name'', ''phone'', ''date'', ''time''} \<Longrightarrow> substitutions d t name phone ident = None"
  by (simp add: substitutions_def)

lemmas template_eval =
  render_message_template_def safe_substitute_def substitutions_def convert_def py_or_def
  match_defs is_id_start_def is_id_char_def braced_ident_def pattern_match.simps
  valid_identifier_def

text \<open>
  C5, as amended. Rendering never raises: it returns a string for every template, name
  and phone. A placeholder whose name is a valid identifier other than name, phone, date
  and time stays in the output as it is written, braced or not, wherever it stands (the
  text before it not ending in a delimiter that would pair with its own, and, for the
  form without braces, the text after it not going on with an identifier character).
  Rendering a rendering again gives the same string when the first rendering has no
  delimiter left in it.
\<close>

theorem render_message_template_total_verbatim:
  "(\<exists>out. render_message_template d t template_str name phone = Inr out) \<and>
   (valid_identifier ident \<and> ident \<notin> {''name'', ''phone'', ''date'', ''time''} \<and>
    (pre = [] \<or> last pre \<noteq> CHR ''$'') \<longrightarrow>
      (\<exists>a b. render_message_template d t pre name phone = Inr a \<and>
             render_message_template d t post name phone = Inr b \<and>
             render_message_template d t (pre @ ''${'' @ ident @ ''}'' @ post) name phone =
               Inr (a @ ''${'' @ ident @ ''}'' @ b))) \<and>
   (valid_identifier ident \<and> ident \<notin> {''name'', ''phone'', ''date'', ''time''} \<and>
    (pre = [] \<or> last pre \<noteq> CHR ''$'') \<and> (post = [] \<or> \<not> is_id_char (hd post)) \<longrightarrow>
      (\<exists>a b. render_message_template d t pre name phone = Inr a \<and>
             render_message_template d t post name phone = Inr b \<and>
             render_message_template d t (pre @ CHR ''$'' # ident @ post) name phone =
               Inr (a @ CHR ''$'' # ident @ b))) \<and>
   (render_message_template d t template_str name phone = Inr out \<and> CHR ''$'' \<notin> set out \<longrightarrow>
      render_message_template d t out name phone = Inr out)"
proof (intro conjI impI)
  show "\<exists>out. render_message_template d t template_str name phone = Inr out"
    by (rule render_message_template_returns)
next
  assume h: "valid_identifier ident \<and> ident \<notin> {''name'', ''phone'', ''date'', ''time''} \<and>
    (pre = [] \<or> last pre \<noteq> CHR ''$'')"
  then have "substitutions d t name phone ident = None" by (simp add: substitutions_unresolved)
  with h show "\<exists>a b. render_message_template d t pre name phone = Inr a \<and>
             render_message_template d t post name phone = Inr b \<and>
             render_message_template d t (pre @ ''${'' @ ident @ ''}'' @ post) name phone =
               Inr (a @ ''${'' @ ident @ ''}'' @ b)"
    unfolding render_message_template_def
    by (intro safe_substitute_braced_verbatim) auto
next
  assume h: "valid_identifier ident \<and> ident \<notin> {''name'', ''phone'', ''date'', ''time''} \<and>
    (pre = [] \<or> last pre \<noteq> CHR ''$'') \<and> (post = [] \<or> \<not> is_id_char (hd post))"
  then have "substitutions d t name phone ident = None" by (simp add: substitutions_unresolved)
  with h show "\<exists>a b. render_message_template d t pre name phone = Inr a \<and>
             render_message_template d t post name phone = Inr b \<and>
             render_message_template d t (pre @ CHR ''$'' # ident @ post) name phone =
               Inr (a @ CHR ''$'' # ident @ b)"
    unfolding render_message_template_def
    by (intro safe_substitute_named_verbatim) auto
next
  assume "render_message_template d t template_str name phone = Inr out \<and> CHR ''$'' \<notin> set out"
  then show "render_message_template d t out name phone = Inr out"
    by (simp add: render_message_template_def safe_substitute_def re_sub_no_delimiter)
qed

theorem render_message_template_total_verbatim_witness:
  "valid_identifier ''link'' \<and> ''link'' \<notin> {''name'', ''phone'', ''date'', ''time''} \<and>
   last ''Hi ${name}, see '' \<noteq> CHR ''$'' \<and> \<not> is_id_char (hd ''!'') \<and>
   render_message_template ''2024-01-01'' ''12:00'' ''Hi ${name}'' ''Ana'' ''15551234567'' = Inr ''Hi Ana'' \<and>
   CHR ''$'' \<notin> set ''Hi Ana'' \<and>
   render_message_template ''2024-01-01'' ''12:00'' ''Hi ${name}, see ${link}!'' ''Ana'' ''15551234567'' =
     Inr ''Hi Ana, see ${link}!'' \<and>
   render_message_template ''2024-01-01'' ''12:00'' ''Hi ${name}, see $link!'' ''Ana'' ''15551234567'' =
     Inr ''Hi Ana, see $link!'' \<and>
   render_message_template ''2024-01-01'' ''12:00'' ''Hi Ana'' ''Ana'' ''15551234567'' = Inr ''Hi Ana''"
  using render_message_template_total_verbatim
    [of "''2024-01-01''" "''12:00''" "''Hi ${name}''" "''Ana''" "''15551234567''" "''link''"
        "''Hi ${name}, see ''" "''!''" "''Hi Ana''"]
  by (simp add: template_eval)

text \<open>
  C5 as stated fails: the template \<^verbatim>\<open>$$name\<close> renders to \<^verbatim>\<open>$name\<close> (the escape gives one
  delimiter), and rendering that again with the same substitutions gives the name.
\<close>

theorem render_message_template_not_idempotent:
  "render_message_template ''2024-01-01'' ''12:00'' ''$$name'' ''Ana'' ''15551234567'' = Inr ''$name'' \<and>
   render_message_template ''2024-01-01'' ''12:00'' ''$name'' ''Ana'' ''15551234567'' = Inr ''Ana'' \<and>
   ''$name'' \<noteq> ''Ana''"
  by (simp add: template_eval)

section \<open>Verification: actions\<close>

lemmas action_defs =
  ret_def raise_def bind_def seq_def lift_def try_except_def try_finally_def emit_def log_def
  beep_success_def beep_fail_def sleep_def sleep_uniform_def faulty_def page_step_def
  urlopen_request_def driver_settings_def driver_get_def console_input_def


subsection \<open>Closure properties\<close>

































section \<open>Verification: contacts\<close>














lemmas csv_eval =
  csv_row_def complete_row_def row_accepted_def row_contact_def row_warning_def
  trimmed_field_def phone_accepted_def normalized_def strip_def is_space_def is_digit_def




section \<open>Verification: the main workflow\<close>





lemmas sample_eval =
  sample_env_def sample_send_env_def no_faults_def input_timeout_def timeout_cleanup_raises_def
  close_raises_after_submit_def



section \<open>Verification: the dispatch controller\<close>


lemma bind_step_raise: "m w = (Inl e, w') \<Longrightarrow> bind m k w = (Inl e, w')"
  by (simp add: bind_def)




lemma block_step_raise: "m w = (Inl e, w') \<Longrightarrow> block (m # ms) w = (Inl e, w')"
  by (simp add: seq_def bind_def)


declare block.simps [simp del]

lemma emit_step: "emit e w = (Inr (), w\<lparr>trace := trace w @ [e]\<rparr>)"
  by (simp add: emit_def)


lemma outgoing_message_returns: "\<exists>m. outgoing_message env name phone raw is_reply = Inr m"
  using render_message_template_returns by (simp add: outgoing_message_def)

lemma send_no_attempts:
  assumes "retry_limit \<le> 0" and "focus w = Some h"
  shows "send_whatsapp_message env name phone raw retry_limit is_reply w =
     (Inr False, w\<lparr>trace := trace w @ [Log (FailedToSend phone) ''red'', Beep 400 400]\<rparr>)"
proof -
  obtain m where m: "outgoing_message env name phone raw is_reply = Inr m"
    using outgoing_message_returns by blast
  from assms(1) have "[1..retry_limit] = []" by simp
  with m assms(2) show ?thesis
    by (simp add: send_whatsapp_message_def current_window_handle_def action_defs)
qed













lemmas driver_defs =
  window_handles_def close_window_def switch_to_window_def execute_script_def last_item_def
  current_window_handle_def






lemma fresh_handle: "anchored w h \<Longrightarrow> next_handle w \<notin> set (handles w)"
  by (auto simp: anchored_def list_all_iff)






















lemmas send_eval =
  send_whatsapp_message_def outgoing_message_def deep_link_def quote_def quote_char_def
  percent_def hex_digit_def window_open_script_def attempts.simps attempt_cycle_def
  attempt_body_def on_failure_def block.simps driver_defs action_defs sample_eval
  template_eval session_world_def upto.simps MIN_DELAY_SEC_def MAX_DELAY_SEC_def
  TimeoutException_def NoSuchWindowException_def


text \<open>
  C9. With a retry limit of zero or less, and the driver on a window when the function
  is entered (so that the anchor handle can be read), the function returns \<open>False\<close>; all
  it does is the failure line on the console and the failure beep. No script is run and
  the browser is as it was.
\<close>

theorem send_whatsapp_message_no_attempts:
  assumes "retry_limit \<le> 0" and "focus w = Some main_window"
  shows "send_whatsapp_message env name phone raw_message retry_limit is_reply w =
     (Inr False, w\<lparr>trace := trace w @ [Log (FailedToSend phone) ''red'', Beep 400 400]\<rparr>)"
  using assms by (rule send_no_attempts)

theorem send_whatsapp_message_no_attempts_witness:
  "(0::int) \<le> 0 \<and> focus session_world = Some 0 \<and>
   send_whatsapp_message (sample_send_env (\<lambda>_. no_faults)) ''Ana'' ''15551234567'' ''Hi $name'' 0 False
     session_world =
     (Inr False,
      session_world\<lparr>trace := [Log (FailedToSend ''15551234567'') ''red'', Beep 400 400]\<rparr>)"
  using send_whatsapp_message_no_attempts
    [of 0 session_world 0 "sample_send_env (\<lambda>_. no_faults)" "''Ana''" "''15551234567''"
        "''Hi $name''" False]
  by (simp add: session_world_def)














lemma anchored_trace: "anchored (w\<lparr>trace := t\<rparr>) h = anchored w h"
  by (simp add: anchored_def)








lemmas main_eval =
  run_process_def main_bulk_send_def check_internet_connection_def initialize_driver_def
  launch_chrome_def configure_chrome_options_value session_body_def prompt_qr_scan_def
  wait_for_whatsapp_login_def sys_exit_def main_handlers_def driver_quit_def send_all.simps
  load_contacts_from_csv_def read_csv_def read_rows.simps process_row_def strip_method.simps
  row_get_def remove_char_def isdigit_def csv_eval initial_world_def RETRY_LIMIT_def CSV_FILE_def
  send_eval offline_run_def no_browser_run_def login_failure_run_def missing_file_run_def
  partial_failure_run_def interrupted_run_def




text \<open>
  C7, evaluated on the code. When the chat list is missing at both probes,
  \<^verbatim>\<open>prompt_qr_scan\<close> quits the driver and calls \<^verbatim>\<open>exit(1)\<close>; the SystemExit passes through
  the \<^verbatim>\<open>finally\<close> clause of \<^verbatim>\<open>main_bulk_send\<close>, which quits the driver again: two calls of
  \<^verbatim>\<open>driver.quit()\<close> for one browser. On the other exits from the session (the run
  completes, the user interrupts a send, the contacts file cannot be opened) there is one.
\<close>

theorem run_process_quits_twice:
  "fst (run_process login_failure_run) = Inl (SystemExit 1) \<and>
   launched (snd (run_process login_failure_run)) = 1 \<and>
   quits (snd (run_process login_failure_run)) = 2 \<and>
   fst (run_process partial_failure_run) = Inr () \<and>
   quits (snd (run_process partial_failure_run)) = 1 \<and>
   fst (run_process interrupted_run) = Inr () \<and>
   quits (snd (run_process interrupted_run)) = 1 \<and>
   fst (run_process missing_file_run) = Inl (Exception ''FileNotFoundError'') \<and>
   quits (snd (run_process missing_file_run)) = 1"
  by (simp add: main_eval)

end
